theory Spec2Isabelle
  imports Complex_Main
begin

section \<open>Values and exceptions of the Python program\<close>

text \<open>
  The model of \<^verbatim>\<open>proposta.py\<close>. Conventions:
  \<^item> a Python \<^verbatim>\<open>float\<close> that is finite is modelled by the exact rational it denotes
    (\<open>Finite q\<close>), the three non-finite values by constructors of their own. The rounding of
    binary64 arithmetic and its overflow are not modelled: every arithmetic operation is the
    exact one;
  \<^item> a Python \<^verbatim>\<open>str\<close> is a \<open>string\<close> whose characters are the code points below 256;
  \<^item> an exception is a value: a function that may raise returns \<open>exn + 'a\<close>, with \<open>Inl\<close> the
    exception raised. The texts of messages produced by the interpreter itself (not by a
    \<^verbatim>\<open>raise\<close> of the program) are shortened.
\<close>

datatype pyfloat = Finite rat | PosInf | NegInf | NaN

datatype pyval = PNone | PStr string | PInt int | PFloat pyfloat

datatype exn =
    ValueError string
  | TypeError string
  | AttributeError string
  | OverflowError string
  | IndexError string
  | OSError string
  | Exception string

text \<open>\<^verbatim>\<open>str(e)\<close> of an exception built from one message.\<close>

fun str_exn :: "exn \<Rightarrow> string" where
  "str_exn (ValueError m) = m"
| "str_exn (TypeError m) = m"
| "str_exn (AttributeError m) = m"
| "str_exn (OverflowError m) = m"
| "str_exn (IndexError m) = m"
| "str_exn (OSError m) = m"
| "str_exn (Exception m) = m"

text \<open>Truth value of an object, as \<^verbatim>\<open>not x\<close> and \<^verbatim>\<open>x or y\<close> test it.\<close>

fun truthy :: "pyval \<Rightarrow> bool" where
  "truthy PNone = False"
| "truthy (PStr s) = (s \<noteq> [])"
| "truthy (PInt i) = (i \<noteq> 0)"
| "truthy (PFloat (Finite q)) = (q \<noteq> 0)"
| "truthy (PFloat _) = True"

text \<open>
  The built-in \<^verbatim>\<open>round(x)\<close> with one argument, on a finite \<open>x\<close>: the nearest integer, a
  tie going to the even neighbour. On a non-finite argument it raises (\<^verbatim>\<open>ValueError\<close> on
  NaN, \<^verbatim>\<open>OverflowError\<close> on an infinity).
\<close>

definition round_half_even :: "rat \<Rightarrow> int" where
  "round_half_even x =
     (let f = \<lfloor>x\<rfloor>; d = x - of_int f
      in if d < 1 / 2 then f
         else if 1 / 2 < d then f + 1
         else if even f then f else f + 1)"

section \<open>Characters and the parsing of numbers\<close>

text \<open>White space as \<^verbatim>\<open>str.isspace\<close>, \<^verbatim>\<open>str.strip\<close>, the pattern \<^verbatim>\<open>\s\<close> and \<^verbatim>\<open>float\<close> see it.\<close>

definition is_space :: "char \<Rightarrow> bool" where
  "is_space c =
     (let n = of_char c :: nat
      in (9 \<le> n \<and> n \<le> 13) \<or> (28 \<le> n \<and> n \<le> 32) \<or> n = 133 \<or> n = 160)"

definition is_digit :: "char \<Rightarrow> bool" where
  "is_digit c = (let n = of_char c :: nat in 48 \<le> n \<and> n \<le> 57)"

definition digit_val :: "char \<Rightarrow> nat" where
  "digit_val c = of_char c - 48"

definition py_strip :: "string \<Rightarrow> string" where
  "py_strip s = rev (dropWhile is_space (rev (dropWhile is_space s)))"

text \<open>\<^verbatim>\<open>s.replace(a, b)\<close> for one-character \<open>a\<close> and \<open>b\<close>.\<close>

definition replace_char :: "char \<Rightarrow> char \<Rightarrow> string \<Rightarrow> string" where
  "replace_char a b s = map (\<lambda>c. if c = a then b else c) s"

text \<open>Lower case of the ASCII letters, enough to compare with \<^verbatim>\<open>inf\<close> and \<^verbatim>\<open>nan\<close>.\<close>

definition ascii_lower :: "char \<Rightarrow> char" where
  "ascii_lower c =
     (let n = of_char c :: nat in if 65 \<le> n \<and> n \<le> 90 then char_of (n + 32) else c)"

text \<open>
  The grammar of \<^verbatim>\<open>float(str)\<close>:
  \<^verbatim>\<open>
  digitpart   ::= digit (["_"] digit)*
  number      ::= [digitpart] "." digitpart | digitpart ["."]
  exponent    ::= ("e" | "E") [sign] digitpart
  floatvalue  ::= [sign] (number [exponent] | "inf" | "infinity" | "nan")
  \<close>
  around which white space is stripped; the three words are read in any letter case.
\<close>

fun digitpart :: "string \<Rightarrow> bool" where
  "digitpart [] = False"
| "digitpart [c] = is_digit c"
| "digitpart (c # d # r) =
     (is_digit c \<and> (if d = CHR ''_'' then digitpart r else digitpart (d # r)))"

definition digits_value :: "string \<Rightarrow> nat" where
  "digits_value s = foldl (\<lambda>a c. 10 * a + digit_val c) 0 (filter is_digit s)"

definition number_ok :: "string \<Rightarrow> bool" where
  "number_ok s =
     (let ip = takeWhile (\<lambda>c. c \<noteq> CHR ''.'') s;
          rest = dropWhile (\<lambda>c. c \<noteq> CHR ''.'') s
      in case rest of
           [] \<Rightarrow> digitpart ip
         | _ # fp \<Rightarrow> (ip = [] \<and> digitpart fp) \<or> (digitpart ip \<and> (fp = [] \<or> digitpart fp)))"

definition number_value :: "string \<Rightarrow> rat" where
  "number_value s =
     (let ip = takeWhile (\<lambda>c. c \<noteq> CHR ''.'') s;
          fp = drop 1 (dropWhile (\<lambda>c. c \<noteq> CHR ''.'') s)
      in of_nat (digits_value ip)
         + of_nat (digits_value fp) / 10 ^ length (filter is_digit fp))"

definition is_e :: "char \<Rightarrow> bool" where
  "is_e c = (c = CHR ''e'' \<or> c = CHR ''E'')"

definition exponent_ok :: "string \<Rightarrow> bool" where
  "exponent_ok s =
     (case s of
        [] \<Rightarrow> False
      | c # r \<Rightarrow> if c = CHR ''+'' \<or> c = CHR ''-'' then digitpart r else digitpart s)"

definition exponent_value :: "string \<Rightarrow> int" where
  "exponent_value s =
     (case s of
        [] \<Rightarrow> 0
      | c # r \<Rightarrow> if c = CHR ''-'' then - int (digits_value r) else int (digits_value s))"

definition floatnumber_ok :: "string \<Rightarrow> bool" where
  "floatnumber_ok s =
     (let m = takeWhile (\<lambda>c. \<not> is_e c) s; rest = dropWhile (\<lambda>c. \<not> is_e c) s
      in case rest of
           [] \<Rightarrow> number_ok m
         | _ # ex \<Rightarrow> number_ok m \<and> exponent_ok ex)"

definition floatnumber_value :: "string \<Rightarrow> rat" where
  "floatnumber_value s =
     (let m = takeWhile (\<lambda>c. \<not> is_e c) s;
          e = exponent_value (drop 1 (dropWhile (\<lambda>c. \<not> is_e c) s))
      in if 0 \<le> e then number_value m * 10 ^ nat e else number_value m / 10 ^ nat (- e))"

definition absfloat :: "string \<Rightarrow> pyfloat option" where
  "absfloat s =
     (let w = map ascii_lower s
      in if w = ''inf'' \<or> w = ''infinity'' then Some PosInf
         else if w = ''nan'' then Some NaN
         else if floatnumber_ok s then Some (Finite (floatnumber_value s))
         else None)"

fun negate :: "pyfloat \<Rightarrow> pyfloat" where
  "negate (Finite q) = Finite (- q)"
| "negate PosInf = NegInf"
| "negate NegInf = PosInf"
| "negate NaN = NaN"

definition float_of_str :: "string \<Rightarrow> exn + pyfloat" where
  "float_of_str s =
     (let t = py_strip s;
          r = (case t of
                 [] \<Rightarrow> None
               | c # u \<Rightarrow> if c = CHR ''-'' then map_option negate (absfloat u)
                          else if c = CHR ''+'' then absfloat u
                          else absfloat t)
      in case r of
           None \<Rightarrow> Inl (ValueError ''could not convert string to float'')
         | Some v \<Rightarrow> Inr v)"

text \<open>The built-in \<^verbatim>\<open>float(x)\<close> on the values of the model.\<close>

fun py_float :: "pyval \<Rightarrow> exn + pyfloat" where
  "py_float (PStr s) = float_of_str s"
| "py_float (PInt i) = Inr (Finite (of_int i))"
| "py_float (PFloat v) = Inr v"
| "py_float PNone = Inl (TypeError ''float() argument must be a string or a real number'')"

section \<open>The parameter deriver\<close>

definition DESCONTO_CONTRATO :: rat where
  "DESCONTO_CONTRATO = 20"

definition TARIFA_ENERGISA :: rat where
  "TARIFA_ENERGISA = 1138131 / 1000000"

definition NOME_COMPLETO :: string where
  "NOME_COMPLETO = ''Marcos da Silva Santos Odete''"

definition ENDERECO_COMPLETO :: string where
  "ENDERECO_COMPLETO = ''Rua das Flores, 124 - Centro - Campo Grande/MS''"

definition VALOR_FATURA_CLIENTE :: string where
  "VALOR_FATURA_CLIENTE = ''439.85''"

text \<open>
  \<^verbatim>\<open>re.sub(r'[R$\s]', '', valor_str)\<close> deletes every \<^verbatim>\<open>R\<close>, \<^verbatim>\<open>$\<close> and white-space
  character; the pattern raises \<^verbatim>\<open>TypeError\<close> on an argument that is not a string.
\<close>

definition valor_limpo :: "string \<Rightarrow> string" where
  "valor_limpo s = filter (\<lambda>c. \<not> (c = CHR ''R'' \<or> c = CHR ''$'' \<or> is_space c)) s"

fun extrair_valor_monetario :: "pyval \<Rightarrow> exn + pyfloat" where
  "extrair_valor_monetario (PStr valor_str) =
     (let limpo = valor_limpo valor_str;
          limpo = (if CHR '','' \<in> set limpo then replace_char CHR '','' CHR ''.'' limpo
                   else limpo)
      in float_of_str limpo)"
| "extrair_valor_monetario _ = Inl (TypeError ''expected string or bytes-like object'')"

record parametros =
  nome :: string
  endereco :: string
  consumo :: int
  taxa_iluminacao_publica :: rat
  consumo_minimo :: int
  valor_fatura_original :: rat

text \<open>\<^verbatim>\<open>x or d\<close> for an optional string argument and a string default.\<close>

fun str_or :: "string option \<Rightarrow> string \<Rightarrow> string" where
  "str_or None d = d"
| "str_or (Some s) d = (if s = [] then d else s)"

definition val_or :: "pyval \<Rightarrow> pyval \<Rightarrow> pyval" where
  "val_or x d = (if truthy x then x else d)"

text \<open>Lines 61 to 90 of \<^verbatim>\<open>calcular_parametros_automaticos\<close>, on a finite bill amount.\<close>

definition valor_atualizado_estimado :: "rat \<Rightarrow> rat" where
  "valor_atualizado_estimado valor_fatura =
     valor_fatura - (if valor_fatura > 500 then 9251 / 100
                     else (if valor_fatura > 300 then 6167 / 100 else 4290 / 100))"

definition parametros_do_valor :: "string \<Rightarrow> string \<Rightarrow> rat \<Rightarrow> parametros" where
  "parametros_do_valor nome_usar endereco_usar valor_fatura =
     (let consumo_minimo = (if valor_fatura \<le> 300 then 30
                            else if valor_fatura \<le> 500 then 50
                            else 100);
          consumo_estimado = valor_atualizado_estimado valor_fatura / TARIFA_ENERGISA;
          consumo_total = round_half_even consumo_estimado;
          valor_consumo_medio_exato = of_int consumo_total * TARIFA_ENERGISA;
          taxa_iluminacao_ajustada = valor_fatura - valor_consumo_medio_exato
      in \<lparr> nome = nome_usar,
           endereco = endereco_usar,
           consumo = consumo_total,
           taxa_iluminacao_publica = taxa_iluminacao_ajustada,
           consumo_minimo = consumo_minimo,
           valor_fatura_original = valor_fatura \<rparr>)"

text \<open>
  The whole function. A non-finite amount reaches \<^verbatim>\<open>round\<close>, which raises: the comparisons
  and the arithmetic before it do not.
\<close>

definition calcular_parametros_automaticos ::
  "string option \<Rightarrow> string option \<Rightarrow> pyval \<Rightarrow> exn + parametros" where
  "calcular_parametros_automaticos nome_completo endereco_completo valor_fatura_cliente =
     (let nome_usar = str_or nome_completo NOME_COMPLETO;
          endereco_usar = str_or endereco_completo ENDERECO_COMPLETO;
          valor_usar = val_or valor_fatura_cliente (PStr VALOR_FATURA_CLIENTE)
      in case extrair_valor_monetario valor_usar of
           Inl e \<Rightarrow> Inl e
         | Inr (Finite valor_fatura) \<Rightarrow>
             Inr (parametros_do_valor nome_usar endereco_usar valor_fatura)
         | Inr NaN \<Rightarrow> Inl (ValueError ''cannot convert float NaN to integer'')
         | Inr _ \<Rightarrow> Inl (OverflowError ''cannot convert float infinity to integer''))"

section \<open>The financial figures\<close>

text \<open>
  The module-level variables that \<^verbatim>\<open>calcular_valores_financeiros\<close> and
  \<^verbatim>\<open>criar_proposta_pdf\<close> read and that \<^verbatim>\<open>processar_proposta_webhook\<close> overwrites.
\<close>

record globais =
  NOME :: string
  ENDERECO :: string
  CONSUMO :: int
  TAXA_ILUMINACAO_PUBLICA :: rat
  CONSUMO_MINIMO :: int

text \<open>Lines 96 to 100: the assignments made when the module is loaded.\<close>

definition globais_de :: "parametros \<Rightarrow> globais" where
  "globais_de p =
     \<lparr> NOME = nome p,
       ENDERECO = endereco p,
       CONSUMO = consumo p,
       TAXA_ILUMINACAO_PUBLICA = taxa_iluminacao_publica p,
       CONSUMO_MINIMO = consumo_minimo p \<rparr>"

definition globais_iniciais :: "exn + globais" where
  "globais_iniciais =
     (case calcular_parametros_automaticos None None PNone of
        Inl e \<Rightarrow> Inl e
      | Inr p \<Rightarrow> Inr (globais_de p))"

text \<open>
  The dictionary returned by \<^verbatim>\<open>calcular_valores_financeiros\<close>, one field for each key (the
  key \<^verbatim>\<open>consumo_minimo\<close> is the field \<open>consumo_minimo_f\<close>). The local variables of the
  function carry the suffix \<open>_l\<close>.
\<close>

record valores =
  tax_ilu_pub :: rat
  cmc_total :: rat
  consumo_minimo_f :: rat
  desconto :: rat
  tarifa_energisa :: rat
  tarifa_energisa_com_desconto :: rat
  energia_energia_a :: rat
  valor_fatura :: rat
  valor_total_fatura :: rat
  valor_fatura_sem_imposto :: rat
  fatura_distribuidora :: rat
  fatura_geradora :: rat
  total_fatura_energia_a :: rat
  energia_compensada :: rat
  consumo_minimo_energisa :: rat
  total_sem_desconto :: rat
  valor_desconto :: rat
  total_com_desconto :: rat
  total_fatura_energisa_para_pagar :: rat
  fatura_locacao :: rat
  total_a_pagar_CGS :: rat
  economia_ano :: rat
  economia_5ano :: rat
  economia_incidencia_bandeira_amarela :: rat
  economia_incidencia_bandeira_vermelha_patamar_1 :: rat
  economia_incidencia_bandeira_vermelha_patamar_2 :: rat
  economia_incidencia_bandeira_escassez_hibrida :: rat
  economia_anual_incidencia_bandeira_amarela :: rat
  economia_anual_incidencia_bandeira_vermelha_patamar_1 :: rat
  economia_anual_incidencia_bandeira_vermelha_patamar_2 :: rat
  economia_anual_incidencia_bandeira_escassez_hibrida :: rat
  economia_5ano_incidencia_bandeira_amarela :: rat
  economia_5ano_incidencia_bandeira_vermelha_patamar_1 :: rat
  economia_5ano_incidencia_bandeira_vermelha_patamar_2 :: rat
  economia_5ano_incidencia_bandeira_escassez_hibrida :: rat

definition calcular_valores_financeiros :: "globais \<Rightarrow> valores" where
  "calcular_valores_financeiros g =
     (let tax_ilu_pub_l = TAXA_ILUMINACAO_PUBLICA g;
          cmc_total_l = of_int (CONSUMO g);
          consumo_minimo_l = of_int (CONSUMO_MINIMO g);
          desconto_l = DESCONTO_CONTRATO;
          tarifa_energisa_l = TARIFA_ENERGISA;
          tarifa_energisa_com_desconto_l = tarifa_energisa_l * (1 - desconto_l / 100);
          tarifa_bandeira_amarela = 24181 / 1000000;
          tarifa_bandeira_vermelha_patamar_1 = 57252 / 1000000;
          tarifa_bandeira_vermelha_patamar_2 = 101047 / 1000000;
          tarifa_bandeira_escassez_hibrida = 182160 / 1000000;
          energia_energia_a_l = cmc_total_l - consumo_minimo_l;
          valor_fatura_l = tarifa_energisa_l * cmc_total_l;
          valor_total_fatura_l = valor_fatura_l + tax_ilu_pub_l;
          valor_fatura_sem_imposto_l = tarifa_energisa_l * energia_energia_a_l;
          fatura_distribuidora_l = valor_total_fatura_l - valor_fatura_sem_imposto_l;
          fatura_geradora_l = tarifa_energisa_com_desconto_l * energia_energia_a_l;
          total_fatura_energia_a_l = fatura_distribuidora_l + fatura_geradora_l;
          energia_compensada_l = (cmc_total_l - consumo_minimo_l) * tarifa_energisa_l;
          consumo_minimo_energisa_l = consumo_minimo_l * tarifa_energisa_l;
          total_sem_desconto_l = valor_fatura_l + tax_ilu_pub_l;
          valor_desconto_l = total_sem_desconto_l - total_fatura_energia_a_l;
          total_com_desconto_l = (valor_fatura_l - valor_desconto_l) + tax_ilu_pub_l;
          total_fatura_energisa_para_pagar_l = valor_fatura_l - energia_compensada_l;
          fatura_locacao_l = total_fatura_energisa_para_pagar_l + energia_compensada_l - valor_desconto_l;
          total_a_pagar_CGS_l = consumo_minimo_energisa_l + tax_ilu_pub_l;
          economia_ano_l = valor_desconto_l * 12;
          economia_5ano_l = economia_ano_l * 5;
          economia_incidencia_bandeira_amarela_l = valor_desconto_l + energia_energia_a_l * tarifa_bandeira_amarela;
          economia_incidencia_bandeira_vermelha_patamar_1_l = valor_desconto_l + energia_energia_a_l * tarifa_bandeira_vermelha_patamar_1;
          economia_incidencia_bandeira_vermelha_patamar_2_l = valor_desconto_l + energia_energia_a_l * tarifa_bandeira_vermelha_patamar_2;
          economia_incidencia_bandeira_escassez_hibrida_l = valor_desconto_l + energia_energia_a_l * tarifa_bandeira_escassez_hibrida;
          economia_anual_incidencia_bandeira_amarela_l = economia_incidencia_bandeira_amarela_l * 12;
          economia_anual_incidencia_bandeira_vermelha_patamar_1_l = economia_incidencia_bandeira_vermelha_patamar_1_l * 12;
          economia_anual_incidencia_bandeira_vermelha_patamar_2_l = economia_incidencia_bandeira_vermelha_patamar_2_l * 12;
          economia_anual_incidencia_bandeira_escassez_hibrida_l = economia_incidencia_bandeira_escassez_hibrida_l * 12;
          economia_5ano_incidencia_bandeira_amarela_l = economia_anual_incidencia_bandeira_amarela_l * 5;
          economia_5ano_incidencia_bandeira_vermelha_patamar_1_l = economia_anual_incidencia_bandeira_vermelha_patamar_1_l * 5;
          economia_5ano_incidencia_bandeira_vermelha_patamar_2_l = economia_anual_incidencia_bandeira_vermelha_patamar_2_l * 5;
          economia_5ano_incidencia_bandeira_escassez_hibrida_l = economia_anual_incidencia_bandeira_escassez_hibrida_l * 5
      in \<lparr> tax_ilu_pub = tax_ilu_pub_l,
           cmc_total = cmc_total_l,
           consumo_minimo_f = consumo_minimo_l,
           desconto = desconto_l,
           tarifa_energisa = tarifa_energisa_l,
           tarifa_energisa_com_desconto = tarifa_energisa_com_desconto_l,
           energia_energia_a = energia_energia_a_l,
           valor_fatura = valor_fatura_l,
           valor_total_fatura = valor_total_fatura_l,
           valor_fatura_sem_imposto = valor_fatura_sem_imposto_l,
           fatura_distribuidora = fatura_distribuidora_l,
           fatura_geradora = fatura_geradora_l,
           total_fatura_energia_a = total_fatura_energia_a_l,
           energia_compensada = energia_compensada_l,
           consumo_minimo_energisa = consumo_minimo_energisa_l,
           total_sem_desconto = total_sem_desconto_l,
           valor_desconto = valor_desconto_l,
           total_com_desconto = total_com_desconto_l,
           total_fatura_energisa_para_pagar = total_fatura_energisa_para_pagar_l,
           fatura_locacao = fatura_locacao_l,
           total_a_pagar_CGS = total_a_pagar_CGS_l,
           economia_ano = economia_ano_l,
           economia_5ano = economia_5ano_l,
           economia_incidencia_bandeira_amarela = economia_incidencia_bandeira_amarela_l,
           economia_incidencia_bandeira_vermelha_patamar_1 = economia_incidencia_bandeira_vermelha_patamar_1_l,
           economia_incidencia_bandeira_vermelha_patamar_2 = economia_incidencia_bandeira_vermelha_patamar_2_l,
           economia_incidencia_bandeira_escassez_hibrida = economia_incidencia_bandeira_escassez_hibrida_l,
           economia_anual_incidencia_bandeira_amarela = economia_anual_incidencia_bandeira_amarela_l,
           economia_anual_incidencia_bandeira_vermelha_patamar_1 = economia_anual_incidencia_bandeira_vermelha_patamar_1_l,
           economia_anual_incidencia_bandeira_vermelha_patamar_2 = economia_anual_incidencia_bandeira_vermelha_patamar_2_l,
           economia_anual_incidencia_bandeira_escassez_hibrida = economia_anual_incidencia_bandeira_escassez_hibrida_l,
           economia_5ano_incidencia_bandeira_amarela = economia_5ano_incidencia_bandeira_amarela_l,
           economia_5ano_incidencia_bandeira_vermelha_patamar_1 = economia_5ano_incidencia_bandeira_vermelha_patamar_1_l,
           economia_5ano_incidencia_bandeira_vermelha_patamar_2 = economia_5ano_incidencia_bandeira_vermelha_patamar_2_l,
           economia_5ano_incidencia_bandeira_escassez_hibrida = economia_5ano_incidencia_bandeira_escassez_hibrida_l \<rparr>)"

section \<open>The comparison chart\<close>

text \<open>
  The numbers that \<^verbatim>\<open>gerar_grafico\<close> computes before it draws. \<^verbatim>\<open>np.ceil\<close> gives the least
  integer not below its argument, as a float; \<^verbatim>\<open>np.arange(start, stop, step)\<close> gives the
  \<open>\<lceil>(stop - start) / step\<rceil>\<close> values \<open>start + i * step\<close> (none when that count is negative).
\<close>

definition np_ceil :: "rat \<Rightarrow> rat" where
  "np_ceil x = of_int \<lceil>x\<rceil>"

definition np_arange :: "rat \<Rightarrow> rat \<Rightarrow> rat \<Rightarrow> rat list" where
  "np_arange start stop step =
     map (\<lambda>i. start + of_nat i * step) [0 ..< nat \<lceil>(stop - start) / step\<rceil>]"

text \<open>Lines 191 to 205: the upper limit of the y axis and its ticks.\<close>

definition eixo_y :: "rat \<Rightarrow> rat \<times> rat list" where
  "eixo_y max_value =
     (if max_value < 300 then
        (let y_max = np_ceil (max_value / 50) * 50
         in (y_max, np_arange 0 (y_max + 50) 50))
      else if max_value < 400 then
        (400, [0, 6650 / 100, 133, 20050 / 100, 267, 33350 / 100, 400])
      else if max_value < 600 then
        (600, [0, 100, 200, 300, 400, 500, 600])
      else
        (let y_max = np_ceil (max_value / 100) * 100;
             intervalo = y_max / 6
         in (y_max, map (\<lambda>i. of_nat i * intervalo) [0 ..< 7])))"

text \<open>Lines 219 to 225, the nested function of \<^verbatim>\<open>gerar_grafico\<close>.\<close>

definition ajustar_altura_visual :: "rat \<Rightarrow> rat \<Rightarrow> rat" where
  "ajustar_altura_visual valor valor_maximo =
     (if valor = 0 then 0
      else (let altura_minima = valor_maximo * (5 / 100)
            in if valor < altura_minima then altura_minima else valor))"

text \<open>
  The local variables of \<^verbatim>\<open>gerar_grafico\<close> that decide what is drawn: the axis, and for
  each bar the true and the visual height of its three segments, bottom to top.
\<close>

record barras =
  max_value :: rat
  y_max :: rat
  y_ticks :: "rat list"
  altura_iluminacao :: rat
  altura_consumo_minimo :: rat
  altura_concessionaria :: rat
  altura_iluminacao_visual :: rat
  altura_consumo_minimo_visual :: rat
  altura_concessionaria_visual :: rat
  altura_iluminacao_2 :: rat
  altura_consumo_minimo_2 :: rat
  altura_energia_a :: rat
  altura_iluminacao_visual_2 :: rat
  altura_consumo_minimo_visual_2 :: rat
  altura_energia_a_visual :: rat

definition grafico_barras :: "rat \<Rightarrow> rat \<Rightarrow> rat \<Rightarrow> rat \<Rightarrow> barras" where
  "grafico_barras sem_geracao com_geracao consumo_minimo_energisa_a tax_ilu_pub_a =
     (let max_value_l = max sem_geracao com_geracao;
          eixo = eixo_y max_value_l;
          altura_iluminacao_l = tax_ilu_pub_a;
          altura_consumo_minimo_l = consumo_minimo_energisa_a;
          altura_iluminacao_visual_l = ajustar_altura_visual altura_iluminacao_l max_value_l;
          altura_consumo_minimo_visual_l =
            ajustar_altura_visual altura_consumo_minimo_l max_value_l;
          ajuste_total = (altura_iluminacao_visual_l - altura_iluminacao_l)
                       + (altura_consumo_minimo_visual_l - altura_consumo_minimo_l);
          altura_concessionaria_l = sem_geracao - altura_iluminacao_l - altura_consumo_minimo_l;
          altura_concessionaria_visual_l = altura_concessionaria_l - ajuste_total;
          altura_iluminacao_2_l = tax_ilu_pub_a;
          altura_consumo_minimo_2_l = consumo_minimo_energisa_a;
          altura_iluminacao_visual_2_l = ajustar_altura_visual altura_iluminacao_2_l max_value_l;
          altura_consumo_minimo_visual_2_l =
            ajustar_altura_visual altura_consumo_minimo_2_l max_value_l;
          ajuste_total_2 = (altura_iluminacao_visual_2_l - altura_iluminacao_2_l)
                         + (altura_consumo_minimo_visual_2_l - altura_consumo_minimo_2_l);
          altura_energia_a_l = com_geracao - altura_iluminacao_2_l - altura_consumo_minimo_2_l;
          altura_energia_a_visual_l = altura_energia_a_l - ajuste_total_2
      in \<lparr> max_value = max_value_l,
           y_max = fst eixo,
           y_ticks = snd eixo,
           altura_iluminacao = altura_iluminacao_l,
           altura_consumo_minimo = altura_consumo_minimo_l,
           altura_concessionaria = altura_concessionaria_l,
           altura_iluminacao_visual = altura_iluminacao_visual_l,
           altura_consumo_minimo_visual = altura_consumo_minimo_visual_l,
           altura_concessionaria_visual = altura_concessionaria_visual_l,
           altura_iluminacao_2 = altura_iluminacao_2_l,
           altura_consumo_minimo_2 = altura_consumo_minimo_2_l,
           altura_energia_a = altura_energia_a_l,
           altura_iluminacao_visual_2 = altura_iluminacao_visual_2_l,
           altura_consumo_minimo_visual_2 = altura_consumo_minimo_visual_2_l,
           altura_energia_a_visual = altura_energia_a_visual_l \<rparr>)"

section \<open>Currency formatting\<close>









section \<open>The proposal document and the webhook entry point\<close>

text \<open>
  What lies outside the program is a parameter of the model. An \<open>ambiente\<close> fixes, for one
  call, whether each external step raises (creating the output directory, rendering the chart
  with matplotlib, composing the page with reportlab, opening and writing the file), the output
  directory and the sanitised form of the customer name used in the file name. A \<open>mundo\<close> is
  the mutable state: the module variables and the PDF files present on disk. Exceptions outside
  the \<^verbatim>\<open>Exception\<close> hierarchy (\<^verbatim>\<open>KeyboardInterrupt\<close>, \<^verbatim>\<open>SystemExit\<close>) are not modelled.
\<close>

record ambiente =
  mkdir_erro :: "exn option"
  grafico_erro :: "exn option"
  grafico_retorno :: string
  layout_erro :: "exn option"
  escrita_erro :: "exn option"
  OUTPUT_DIR :: string
  sanitizar_nome_arquivo :: "string \<Rightarrow> string"

record mundo =
  globals :: globais
  pdfs :: "string list"

definition is_letter :: "char \<Rightarrow> bool" where
  "is_letter c =
     (let n = of_char c :: nat
      in (97 \<le> n \<and> n \<le> 122) \<or> (65 \<le> n \<and> n \<le> 90) \<or> (192 \<le> n \<and> n \<le> 255))"

text \<open>
  \<^verbatim>\<open>validar_nome_completo\<close>; its argument is a string in every call of the program, so the
  \<^verbatim>\<open>isinstance\<close> test is left out.
\<close>

definition validar_nome_completo :: "string \<Rightarrow> exn + string" where
  "validar_nome_completo nome_a =
     (if nome_a = [] then
        Inl (ValueError (''Nome completo '' @ [CHR 0xE9] @ '' obrigat'' @ [CHR 0xF3]
                         @ ''rio e deve ser uma string''))
      else (let nome_s = py_strip nome_a
            in if length nome_s < 3 then
                 Inl (ValueError ''Nome completo deve ter pelo menos 3 caracteres'')
               else if length nome_s > 100 then
                 Inl (ValueError (''Nome completo n'' @ [CHR 0xE3]
                                  @ ''o pode ter mais de 100 caracteres''))
               else if \<not> list_ex is_letter nome_s then
                 Inl (ValueError ''Nome completo deve conter pelo menos uma letra'')
               else Inr nome_s))"

text \<open>
  \<^verbatim>\<open>gerar_grafico\<close>: its whole body is inside \<^verbatim>\<open>try\<close>, and the handler raises again, as
  \<^verbatim>\<open>Exception\<close> with a prefixed message. The heights and ticks it draws are those of
  \<open>grafico_barras\<close>; computing them does not raise.
\<close>

definition gerar_grafico ::
  "ambiente \<Rightarrow> rat \<Rightarrow> rat \<Rightarrow> rat \<Rightarrow> rat \<Rightarrow> rat \<Rightarrow> rat \<Rightarrow> exn + string" where
  "gerar_grafico env sem_geracao com_geracao economia consumo_minimo_energisa_a tax_ilu_pub_a
      desconto_a =
     (case grafico_erro env of
        Some e \<Rightarrow> Inl (Exception (''Erro ao gerar gr'' @ [CHR 0xE1] @ ''fico: '' @ str_exn e))
      | None \<Rightarrow> Inr (grafico_retorno env))"

text \<open>
  \<^verbatim>\<open>criar_proposta_pdf\<close>: every exception raised inside is caught and turned into the return
  value \<^verbatim>\<open>None\<close>. The file is written as the last step, after the chart and the page; a
  failure to open it leaves no file. The formatting of the figures between the chart and the
  page is applied to finite values, on which it does not raise.
\<close>

definition criar_proposta_pdf :: "ambiente \<Rightarrow> mundo \<Rightarrow> string option \<times> mundo" where
  "criar_proposta_pdf env w =
     (case validar_nome_completo (NOME (globals w)) of
        Inl e \<Rightarrow> (None, w)
      | Inr nome_validado \<Rightarrow>
          (let valores = calcular_valores_financeiros (globals w)
           in case gerar_grafico env (total_sem_desconto valores)
                     (total_fatura_energia_a valores) (valor_desconto valores)
                     (consumo_minimo_energisa valores) (tax_ilu_pub valores)
                     (desconto valores) of
                Inl e \<Rightarrow> (None, w)
              | Inr grafico \<Rightarrow>
                  (case layout_erro env of
                     Some e \<Rightarrow> (None, w)
                   | None \<Rightarrow>
                       (let nome_sanitizado = sanitizar_nome_arquivo env (NOME (globals w));
                            nome_arquivo = ''simulacao_'' @ nome_sanitizado @ ''.pdf'';
                            caminho_arquivo = OUTPUT_DIR env @ ''/'' @ nome_arquivo
                        in case escrita_erro env of
                             Some e \<Rightarrow> (None, w)
                           | None \<Rightarrow>
                               (Some caminho_arquivo,
                                w\<lparr>pdfs := caminho_arquivo # pdfs w\<rparr>)))))"

definition criar_diretorio_saida :: "ambiente \<Rightarrow> exn + unit" where
  "criar_diretorio_saida env = (case mkdir_erro env of Some e \<Rightarrow> Inl e | None \<Rightarrow> Inr ())"

text \<open>
  The two dictionaries that \<^verbatim>\<open>processar_proposta_webhook\<close> returns: \<open>Sucesso\<close> is
  \<^verbatim>\<open>{'sucesso': True, 'arquivo_path': ..., 'dados_processados': ..., 'message': ...}\<close> and
  \<open>Falha\<close> is \<^verbatim>\<open>{'sucesso': False, 'erro': ..., 'arquivo_path': None}\<close>.
\<close>

datatype resultado =
    Sucesso string parametros string
  | Falha string

fun sucesso :: "resultado \<Rightarrow> bool" where
  "sucesso (Sucesso _ _ _) = True"
| "sucesso (Falha _) = False"

fun arquivo_path :: "resultado \<Rightarrow> string option" where
  "arquivo_path (Sucesso p _ _) = Some p"
| "arquivo_path (Falha _) = None"

text \<open>\<^verbatim>\<open>not x or len(x.strip()) < n\<close>, raising the given message when it holds.\<close>

fun validar_texto :: "pyval \<Rightarrow> nat \<Rightarrow> string \<Rightarrow> exn + string" where
  "validar_texto (PStr s) n msg =
     (if s = [] \<or> length (py_strip s) < n then Inl (ValueError msg) else Inr (py_strip s))"
| "validar_texto v n msg =
     (if \<not> truthy v then Inl (ValueError msg)
      else Inl (AttributeError ''object has no attribute strip''))"

fun le_zero :: "pyfloat \<Rightarrow> bool" where
  "le_zero (Finite q) = (q \<le> 0)"
| "le_zero NegInf = True"
| "le_zero PosInf = False"
| "le_zero NaN = False"

text \<open>
  Lines 982 to 987: the \<^verbatim>\<open>ValueError\<close> raised for a non-positive amount is raised inside the
  \<^verbatim>\<open>try\<close> whose handler catches \<^verbatim>\<open>ValueError\<close>, so it is replaced as well.
\<close>

definition validar_valor :: "pyval \<Rightarrow> exn + pyfloat" where
  "validar_valor valor_fatura_a =
     (case (case py_float valor_fatura_a of
              Inl e \<Rightarrow> Inl e
            | Inr valor_float \<Rightarrow>
                if le_zero valor_float
                then Inl (ValueError ''Valor da fatura deve ser maior que zero'')
                else Inr valor_float) of
        Inl (ValueError _) \<Rightarrow>
          Inl (ValueError (''Valor da fatura deve ser um n'' @ [CHR 0xFA] @ ''mero v''
                           @ [CHR 0xE1] @ ''lido''))
      | Inl e \<Rightarrow> Inl e
      | Inr valor_float \<Rightarrow> Inr valor_float)"

text \<open>Lines 1007 to 1033, the body of the inner \<^verbatim>\<open>try\<close>.\<close>

definition gerar_com_globais ::
  "ambiente \<Rightarrow> mundo \<Rightarrow> parametros \<Rightarrow> (exn + resultado) \<times> mundo" where
  "gerar_com_globais env w parametros_webhook =
     (let w1 = w\<lparr>globals := \<lparr> NOME = nome parametros_webhook,
                                ENDERECO = endereco parametros_webhook,
                                CONSUMO = consumo parametros_webhook,
                                TAXA_ILUMINACAO_PUBLICA =
                                  taxa_iluminacao_publica parametros_webhook,
                                CONSUMO_MINIMO = consumo_minimo parametros_webhook \<rparr>\<rparr>
      in case criar_diretorio_saida env of
           Inl e \<Rightarrow> (Inl e, w1)
         | Inr _ \<Rightarrow>
             (case criar_proposta_pdf env w1 of
                (None, w2) \<Rightarrow>
                  (Inl (Exception (''Falha na cria'' @ [CHR 0xE7, CHR 0xE3]
                                   @ ''o do arquivo PDF'')), w2)
              | (Some arquivo, w2) \<Rightarrow>
                  if arquivo \<notin> set (pdfs w2) then
                    (Inl (Exception (''Arquivo PDF n'' @ [CHR 0xE3]
                                     @ ''o foi criado corretamente'')), w2)
                  else
                    (Inr (Sucesso arquivo parametros_webhook ''Proposta gerada com sucesso''),
                     w2)))"

text \<open>Lines 969 to 1041, the body of the outer \<^verbatim>\<open>try\<close>, with the \<^verbatim>\<open>finally\<close> clause.\<close>

definition processar_corpo ::
  "ambiente \<Rightarrow> mundo \<Rightarrow> pyval \<Rightarrow> pyval \<Rightarrow> pyval \<Rightarrow> (exn + resultado) \<times> mundo" where
  "processar_corpo env w nome_completo endereco_a valor_fatura_a =
     (case validar_texto nome_completo 3 ''Nome completo deve ter pelo menos 3 caracteres'' of
        Inl e \<Rightarrow> (Inl e, w)
      | Inr nome_strip \<Rightarrow>
     (case validar_texto endereco_a 10
             (''Endere'' @ [CHR 0xE7] @ ''o deve ter pelo menos 10 caracteres'') of
        Inl e \<Rightarrow> (Inl e, w)
      | Inr endereco_strip \<Rightarrow>
     (if \<not> truthy valor_fatura_a then
        (Inl (ValueError (''Valor da fatura '' @ [CHR 0xE9] @ '' obrigat'' @ [CHR 0xF3]
                          @ ''rio'')), w)
      else
     (case validar_valor valor_fatura_a of
        Inl e \<Rightarrow> (Inl e, w)
      | Inr valor_float \<Rightarrow>
     (case calcular_parametros_automaticos (Some nome_strip) (Some endereco_strip)
             valor_fatura_a of
        Inl e \<Rightarrow> (Inl e, w)
      | Inr parametros_webhook \<Rightarrow>
          (let nome_original = NOME (globals w);
               endereco_original = ENDERECO (globals w);
               consumo_original = CONSUMO (globals w);
               taxa_original = TAXA_ILUMINACAO_PUBLICA (globals w);
               consumo_minimo_original = CONSUMO_MINIMO (globals w);
               (r, w2) = gerar_com_globais env w parametros_webhook
           in (r, w2\<lparr>globals := (globals w2)
                        \<lparr> NOME := nome_original,
                          ENDERECO := endereco_original,
                          CONSUMO := consumo_original,
                          TAXA_ILUMINACAO_PUBLICA := taxa_original,
                          CONSUMO_MINIMO := consumo_minimo_original \<rparr>\<rparr>)))))))"

text \<open>The function: the handler of the outer \<^verbatim>\<open>try\<close> turns every exception into \<open>Falha\<close>.\<close>

definition processar_proposta_webhook ::
  "ambiente \<Rightarrow> mundo \<Rightarrow> pyval \<Rightarrow> pyval \<Rightarrow> pyval \<Rightarrow> (exn + resultado) \<times> mundo" where
  "processar_proposta_webhook env w nome_completo endereco_a valor_fatura_a =
     (case processar_corpo env w nome_completo endereco_a valor_fatura_a of
        (Inl e, w') \<Rightarrow> (Inr (Falha (''Erro ao processar proposta: '' @ str_exn e)), w')
      | (Inr r, w') \<Rightarrow> (Inr r, w'))"

text \<open>
  A concrete setting for examples: an environment in which every external step succeeds, and
  the state right after the module is loaded, with no document on disk yet.
\<close>

definition ambiente_normal :: ambiente where
  "ambiente_normal =
     \<lparr> mkdir_erro = None, grafico_erro = None, grafico_retorno = ''img/grafico.png?t=0'',
       layout_erro = None, escrita_erro = None, OUTPUT_DIR = ''media'',
       sanitizar_nome_arquivo = replace_char CHR '' '' CHR ''_'' \<rparr>"

definition mundo_inicial :: mundo where
  "mundo_inicial =
     \<lparr> globals = \<lparr> NOME = NOME_COMPLETO, ENDERECO = ENDERECO_COMPLETO, CONSUMO = 332,
                     TAXA_ILUMINACAO_PUBLICA = 61990508 / 1000000, CONSUMO_MINIMO = 50 \<rparr>,
       pdfs = [] \<rparr>"

section \<open>Properties of the parameter deriver\<close>

text \<open>
  Claim C1. Whenever the amount handed to \<^verbatim>\<open>calcular_parametros_automaticos\<close> parses to a
  finite number \<open>B\<close>, the function returns; the consumption is the threshold-selected base fee
  subtracted from \<open>B\<close>, divided by the unit tariff 1.138131 and rounded to the nearest
  integer; the fee is \<open>B\<close> minus the consumption times the tariff; and consumption times
  tariff plus fee gives back \<open>B\<close> (exactly, in the exact arithmetic of the model).
\<close>

theorem calcular_parametros_reconciliation:
  assumes "extrair_valor_monetario (val_or v (PStr VALOR_FATURA_CLIENTE)) = Inr (Finite B)"
  shows "\<exists>p. calcular_parametros_automaticos n e v = Inr p \<and>
     valor_fatura_original p = B \<and>
     consumo p = round_half_even
        ((B - (if B \<le> 300 then 42.90 else if B \<le> 500 then 61.67 else 92.51)) / 1.138131) \<and>
     taxa_iluminacao_publica p = B - of_int (consumo p) * 1.138131 \<and>
     of_int (consumo p) * TARIFA_ENERGISA + taxa_iluminacao_publica p = B"
  using assms
  by (simp add: calcular_parametros_automaticos_def parametros_do_valor_def
      valor_atualizado_estimado_def TARIFA_ENERGISA_def Let_def)

theorem calcular_parametros_reconciliation_witness:
  "\<exists>p. calcular_parametros_automaticos None None (PStr ''439.85'') = Inr p \<and>
     consumo p = 332 \<and> taxa_iluminacao_publica p = 61990508 / 1000000 \<and>
     of_int (consumo p) * TARIFA_ENERGISA + taxa_iluminacao_publica p = 43985 / 100"
proof -
  have h: "extrair_valor_monetario (val_or (PStr ''439.85'') (PStr VALOR_FATURA_CLIENTE))
             = Inr (Finite (43985 / 100))"
    by code_simp
  have r: "round_half_even ((43985 / 100 - 6167 / 100) / (1138131 / 1000000)) = 332"
    by code_simp
  from calcular_parametros_reconciliation [OF h, of None None]
  obtain p where p: "calcular_parametros_automaticos None None (PStr ''439.85'') = Inr p"
    and c: "consumo p = round_half_even
        ((43985 / 100 - (if (43985 / 100 :: rat) \<le> 300 then 42.90
                         else if (43985 / 100 :: rat) \<le> 500 then 61.67 else 92.51)) / 1.138131)"
    and t: "taxa_iluminacao_publica p = 43985 / 100 - of_int (consumo p) * 1.138131"
    and s: "of_int (consumo p) * TARIFA_ENERGISA + taxa_iluminacao_publica p = 43985 / 100"
    by blast
  have c': "consumo p = 332"
    using r by (simp add: c)
  have t': "taxa_iluminacao_publica p = 61990508 / 1000000"
    by (simp add: t c')
  show ?thesis
    using p c' t' s by blast
qed

text \<open>
  Claim C2. The minimum-consumption tier returned for a finite amount \<open>B\<close> is 30 when
  \<open>B \<le> 300\<close>, 50 when \<open>300 < B \<le> 500\<close> and 100 when \<open>B > 500\<close>, and the base fee subtracted
  before the consumption is estimated follows the same thresholds: 42.90, 61.67, 92.51.
\<close>

theorem consumo_minimo_step_function:
  assumes "extrair_valor_monetario (val_or v (PStr VALOR_FATURA_CLIENTE)) = Inr (Finite B)"
  shows "\<exists>p. calcular_parametros_automaticos n e v = Inr p \<and>
     consumo_minimo p = (if B \<le> 300 then 30 else if B \<le> 500 then 50 else 100) \<and>
     valor_atualizado_estimado B =
       B - (if B \<le> 300 then 42.90 else if B \<le> 500 then 61.67 else 92.51)"
  using assms
  by (simp add: calcular_parametros_automaticos_def parametros_do_valor_def
      valor_atualizado_estimado_def Let_def)

theorem consumo_minimo_step_function_witness:
  "(\<exists>p. calcular_parametros_automaticos None None (PStr ''250'') = Inr p \<and>
        consumo_minimo p = 30 \<and> valor_atualizado_estimado 250 = 250 - 42.90) \<and>
   (\<exists>p. calcular_parametros_automaticos None None (PStr ''450'') = Inr p \<and>
        consumo_minimo p = 50 \<and> valor_atualizado_estimado 450 = 450 - 61.67) \<and>
   (\<exists>p. calcular_parametros_automaticos None None (PStr ''800'') = Inr p \<and>
        consumo_minimo p = 100 \<and> valor_atualizado_estimado 800 = 800 - 92.51)"
proof -
  have h1: "extrair_valor_monetario (val_or (PStr ''250'') (PStr VALOR_FATURA_CLIENTE))
             = Inr (Finite 250)"
    by code_simp
  have h2: "extrair_valor_monetario (val_or (PStr ''450'') (PStr VALOR_FATURA_CLIENTE))
             = Inr (Finite 450)"
    by code_simp
  have h3: "extrair_valor_monetario (val_or (PStr ''800'') (PStr VALOR_FATURA_CLIENTE))
             = Inr (Finite 800)"
    by code_simp
  show ?thesis
    using consumo_minimo_step_function [OF h1, of None None]
      consumo_minimo_step_function [OF h2, of None None]
      consumo_minimo_step_function [OF h3, of None None]
    by simp
qed

section \<open>Properties of the financial figures\<close>

text \<open>
  Claim C3. For every state of the module variables, the annual saving is the monthly saving
  times 12 and the five-year saving the annual one times 5; each of the four surcharge
  scenarios adds the billable energy (consumption minus minimum tier) times its fixed rate
  (0.024181, 0.057252, 0.101047, 0.182160) to the monthly saving, its annual figure is that
  monthly figure times 12 and its five-year figure the annual one times 5.
\<close>

theorem economia_projections:
  "(let v = calcular_valores_financeiros g in
    economia_ano v = valor_desconto v * 12 \<and>
    economia_5ano v = economia_ano v * 5 \<and>
    energia_energia_a v = of_int (CONSUMO g) - of_int (CONSUMO_MINIMO g) \<and>
    economia_incidencia_bandeira_amarela v =
      valor_desconto v + energia_energia_a v * 0.024181 \<and>
    economia_incidencia_bandeira_vermelha_patamar_1 v =
      valor_desconto v + energia_energia_a v * 0.057252 \<and>
    economia_incidencia_bandeira_vermelha_patamar_2 v =
      valor_desconto v + energia_energia_a v * 0.101047 \<and>
    economia_incidencia_bandeira_escassez_hibrida v =
      valor_desconto v + energia_energia_a v * 0.182160 \<and>
    economia_anual_incidencia_bandeira_amarela v =
      economia_incidencia_bandeira_amarela v * 12 \<and>
    economia_anual_incidencia_bandeira_vermelha_patamar_1 v =
      economia_incidencia_bandeira_vermelha_patamar_1 v * 12 \<and>
    economia_anual_incidencia_bandeira_vermelha_patamar_2 v =
      economia_incidencia_bandeira_vermelha_patamar_2 v * 12 \<and>
    economia_anual_incidencia_bandeira_escassez_hibrida v =
      economia_incidencia_bandeira_escassez_hibrida v * 12 \<and>
    economia_5ano_incidencia_bandeira_amarela v =
      economia_anual_incidencia_bandeira_amarela v * 5 \<and>
    economia_5ano_incidencia_bandeira_vermelha_patamar_1 v =
      economia_anual_incidencia_bandeira_vermelha_patamar_1 v * 5 \<and>
    economia_5ano_incidencia_bandeira_vermelha_patamar_2 v =
      economia_anual_incidencia_bandeira_vermelha_patamar_2 v * 5 \<and>
    economia_5ano_incidencia_bandeira_escassez_hibrida v =
      economia_anual_incidencia_bandeira_escassez_hibrida v * 5)"
  by (simp add: calcular_valores_financeiros_def Let_def)


section \<open>Properties of the comparison chart\<close>

lemma np_arange_step_50:
  "np_arange 0 (np_ceil (m / 50) * 50 + 50) 50
     = map (\<lambda>i. 50 * of_nat i) [0 ..< nat (\<lceil>m / 50\<rceil> + 1)]"
proof -
  have "(np_ceil (m / 50) * 50 + 50 - 0) / 50 = of_int (\<lceil>m / 50\<rceil> + 1)"
    by (simp add: np_ceil_def)
  then have "\<lceil>(np_ceil (m / 50) * 50 + 50 - 0) / 50\<rceil> = \<lceil>m / 50\<rceil> + 1"
    by (simp only: ceiling_of_int)
  then show ?thesis
    by (simp add: np_arange_def mult.commute)
qed

lemma ajustar_altura_visual_floor:
  "valor \<noteq> 0 \<Longrightarrow> 0.05 * m \<le> ajustar_altura_visual valor m"
  by (simp add: ajustar_altura_visual_def Let_def)

lemma ajustar_altura_visual_zero: "ajustar_altura_visual 0 m = 0"
  by (simp add: ajustar_altura_visual_def)

text \<open>
  Claim C6, as stated, fails: the floor of 5% of the larger total is applied to the two lower
  segments only. A bill of 78.00 gives consumption 31, minimum tier 30 and fee 42.717939; with
  the module variables set to these, the top segment of the first bar is 1.138131, not zero;
  its visual height is the same 1.138131, below the floor 3.90; and it is the smallest segment
  of its bar, not the largest.
\<close>

theorem segment_floor_counterexample:
  "calcular_parametros_automaticos (Some ''Ana'') (Some ''Rua A'') (PStr ''78.00'')
     = Inr \<lparr> nome = ''Ana'', endereco = ''Rua A'', consumo = 31,
             taxa_iluminacao_publica = 42717939 / 1000000, consumo_minimo = 30,
             valor_fatura_original = 78 \<rparr> \<and>
   (let v = calcular_valores_financeiros
              \<lparr> NOME = ''Ana'', ENDERECO = ''Rua A'', CONSUMO = 31,
                TAXA_ILUMINACAO_PUBLICA = 42717939 / 1000000, CONSUMO_MINIMO = 30 \<rparr>;
        b = grafico_barras (total_sem_desconto v) (total_fatura_energia_a v)
              (consumo_minimo_energisa v) (tax_ilu_pub v)
    in max_value b = 78 \<and>
       altura_concessionaria b = 1138131 / 1000000 \<and>
       altura_concessionaria b \<noteq> 0 \<and>
       altura_concessionaria_visual b = 1138131 / 1000000 \<and>
       altura_concessionaria_visual b < 0.05 * max_value b \<and>
       altura_concessionaria b < altura_iluminacao b \<and>
       altura_concessionaria b < altura_consumo_minimo b)"
  by code_simp

text \<open>
  Claim C6, amended. In each bar the two lower segments (public lighting, minimum
  consumption) have a visual height of at least 5% of the larger bar total when their true
  value is not zero, and of zero when it is zero; the top segment is not floored: its visual
  height is its true value minus the total adjustment of the two lower segments; so the three
  visual heights of a bar add up to that bar's true total.
\<close>

theorem segment_floor_and_compensation:
  "(let b = grafico_barras sem com cme tax; piso = 0.05 * max sem com in
     (tax \<noteq> 0 \<longrightarrow>
        piso \<le> altura_iluminacao_visual b \<and> piso \<le> altura_iluminacao_visual_2 b) \<and>
     (cme \<noteq> 0 \<longrightarrow>
        piso \<le> altura_consumo_minimo_visual b \<and> piso \<le> altura_consumo_minimo_visual_2 b) \<and>
     (tax = 0 \<longrightarrow> altura_iluminacao_visual b = 0 \<and> altura_iluminacao_visual_2 b = 0) \<and>
     (cme = 0 \<longrightarrow>
        altura_consumo_minimo_visual b = 0 \<and> altura_consumo_minimo_visual_2 b = 0) \<and>
     altura_concessionaria_visual b = altura_concessionaria b
        - ((altura_iluminacao_visual b - tax) + (altura_consumo_minimo_visual b - cme)) \<and>
     altura_energia_a_visual b = altura_energia_a b
        - ((altura_iluminacao_visual_2 b - tax) + (altura_consumo_minimo_visual_2 b - cme)) \<and>
     altura_iluminacao_visual b + altura_consumo_minimo_visual b
        + altura_concessionaria_visual b = sem \<and>
     altura_iluminacao_visual_2 b + altura_consumo_minimo_visual_2 b
        + altura_energia_a_visual b = com)"
  using ajustar_altura_visual_floor [of tax "max sem com"]
    ajustar_altura_visual_floor [of cme "max sem com"]
  by (simp add: grafico_barras_def Let_def ajustar_altura_visual_zero)

theorem segment_floor_and_compensation_witness:
  "(let b = grafico_barras 400 330 (4 :: rat) (0 :: rat) in
     (4 :: rat) \<noteq> 0 \<and> (0 :: rat) = 0 \<and>
     altura_iluminacao_visual b = 0 \<and>
     altura_consumo_minimo_visual b = 20 \<and>
     altura_concessionaria_visual b = 380 \<and>
     altura_energia_a_visual b = 310)"
proof -
  have b: "grafico_barras 400 330 4 0 =
      \<lparr> max_value = 400, y_max = 600, y_ticks = [0, 100, 200, 300, 400, 500, 600],
        altura_iluminacao = 0, altura_consumo_minimo = 4, altura_concessionaria = 396,
        altura_iluminacao_visual = 0, altura_consumo_minimo_visual = 20,
        altura_concessionaria_visual = 380,
        altura_iluminacao_2 = 0, altura_consumo_minimo_2 = 4, altura_energia_a = 326,
        altura_iluminacao_visual_2 = 0, altura_consumo_minimo_visual_2 = 20,
        altura_energia_a_visual = 310 \<rparr>"
    by code_simp
  show ?thesis
    using segment_floor_and_compensation [of 400 330 4 0]
    by (simp add: b Let_def)
qed

text \<open>
  Claim C7, as stated, fails. Under 300 the ticks are not a fixed array: totals of 250 and of
  100, both under 400, give different ticks. From 600 on the ceiling is the total rounded up
  to the next multiple of 100, not to the nearest one (610 gives 700), and there are seven
  ticks, six intervals apart.
\<close>

theorem y_ticks_counterexample:
  "max (250::rat) 200 < 400 \<and> max (100::rat) 90 < 400 \<and>
   y_ticks (grafico_barras 250 200 50 47) = [0, 50, 100, 150, 200, 250] \<and>
   y_ticks (grafico_barras 100 90 50 47) = [0, 50, 100] \<and>
   y_max (grafico_barras 610 500 50 47) = 700 \<and>
   y_ticks (grafico_barras 610 500 50 47) = [0, 350 / 3, 700 / 3, 350, 1400 / 3, 1750 / 3, 700]"
  by code_simp

text \<open>
  Claim C7, amended. The ticks depend on the larger bar total \<open>m\<close> only, in four regimes:
  under 300 the multiples of 50 from 0 up to \<open>m\<close> rounded up to a multiple of 50; from 300 to
  under 400 the fixed array ending in 400; from 400 to under 600 the fixed array ending in
  600; from 600 on the seven ticks \<open>i * y_max / 6\<close> for \<open>i\<close> from 0 to 6, where \<open>y_max\<close> is \<open>m\<close>
  rounded up to a multiple of 100.
\<close>

theorem y_ticks_regimes:
  "y_ticks (grafico_barras sem com cme tax) =
     (let m = max sem com in
      if m < 300 then map (\<lambda>i. 50 * of_nat i) [0 ..< nat (\<lceil>m / 50\<rceil> + 1)]
      else if m < 400 then [0, 66.50, 133.00, 200.50, 267.00, 333.50, 400.00]
      else if m < 600 then [0, 100.00, 200.00, 300.00, 400.00, 500.00, 600.00]
      else map (\<lambda>i. of_nat i * (of_int \<lceil>m / 100\<rceil> * 100 / 6)) [0 ..< 7])"
  by (simp add: grafico_barras_def eixo_y_def Let_def np_arange_step_50)
    (simp add: np_ceil_def)

section \<open>Properties of the currency formatter\<close>



















section \<open>Properties of the monetary parser\<close>

lemma digitpart_chars: "digitpart s \<Longrightarrow> c \<in> set s \<Longrightarrow> is_digit c \<or> c = CHR ''_''"
  by (induction s rule: digitpart.induct) (auto split: if_splits)

lemma digitpart_no_dot: "digitpart s \<Longrightarrow> CHR ''.'' \<notin> set s"
  using digitpart_chars [of s "CHR ''.''"] by (auto simp: is_digit_def)

lemma count_list_takeWhile_dot:
  "count_list (takeWhile (\<lambda>c. c \<noteq> CHR ''.'') s) CHR ''.'' = 0"
  by (induction s) auto

lemma number_ok_dots:
  assumes ok: "number_ok s"
  shows "count_list s CHR ''.'' \<le> 1"
proof -
  define ip where "ip = takeWhile (\<lambda>c. c \<noteq> CHR ''.'') s"
  define rest where "rest = dropWhile (\<lambda>c. c \<noteq> CHR ''.'') s"
  have s: "s = ip @ rest"
    by (simp add: ip_def rest_def)
  have i: "count_list ip CHR ''.'' = 0"
    by (simp add: ip_def count_list_takeWhile_dot)
  have r: "count_list rest CHR ''.'' \<le> 1"
  proof (cases rest)
    case Nil
    show ?thesis unfolding Nil by simp
  next
    case (Cons d fp)
    from ok have "fp = [] \<or> digitpart fp"
      unfolding number_ok_def Let_def rest_def [symmetric] ip_def [symmetric] Cons
      by auto
    then have "count_list fp CHR ''.'' = 0"
      using digitpart_no_dot [of fp] by (auto simp: count_list_0_iff)
    then show ?thesis unfolding Cons by simp
  qed
  have "count_list s CHR ''.'' = count_list ip CHR ''.'' + count_list rest CHR ''.''"
    unfolding s by (rule count_list_append)
  with i r show ?thesis
    by linarith
qed

lemma exponent_ok_no_dot:
  assumes "exponent_ok s"
  shows "count_list s CHR ''.'' = 0"
proof (cases s)
  case Nil
  show ?thesis unfolding Nil by simp
next
  case (Cons c r)
  from assms have "(c = CHR ''+'' \<or> c = CHR ''-'') \<and> digitpart r \<or> digitpart s"
    unfolding exponent_ok_def Cons by (auto split: if_splits)
  then have "CHR ''.'' \<notin> set s"
    using digitpart_no_dot [of r] digitpart_no_dot [of s] unfolding Cons by auto
  then show ?thesis
    by (simp add: count_list_0_iff)
qed

lemma floatnumber_ok_dots:
  assumes ok: "floatnumber_ok s"
  shows "count_list s CHR ''.'' \<le> 1"
proof -
  define m where "m = takeWhile (\<lambda>c. \<not> is_e c) s"
  define rest where "rest = dropWhile (\<lambda>c. \<not> is_e c) s"
  have s: "s = m @ rest"
    by (simp add: m_def rest_def)
  from ok have nm: "number_ok m"
    unfolding floatnumber_ok_def Let_def rest_def [symmetric] m_def [symmetric]
    by (cases rest) auto
  have cm: "count_list m CHR ''.'' \<le> 1"
    by (rule number_ok_dots [OF nm])
  have cr: "count_list rest CHR ''.'' = 0"
  proof (cases rest)
    case Nil
    show ?thesis unfolding Nil by simp
  next
    case (Cons d ex)
    have "rest \<noteq> []"
      unfolding Cons by simp
    then have "is_e (hd rest)"
      unfolding rest_def using hd_dropWhile [of "\<lambda>c. \<not> is_e c" s] by blast
    then have d: "d \<noteq> CHR ''.''"
      unfolding Cons by (auto simp: is_e_def)
    from ok have "exponent_ok ex"
      unfolding floatnumber_ok_def Let_def rest_def [symmetric] m_def [symmetric] Cons
      by simp
    then have "count_list ex CHR ''.'' = 0"
      by (rule exponent_ok_no_dot)
    with d show ?thesis unfolding Cons by simp
  qed
  have "count_list s CHR ''.'' = count_list m CHR ''.'' + count_list rest CHR ''.''"
    unfolding s by (rule count_list_append)
  with cm cr show ?thesis
    by linarith
qed

lemma ascii_lower_dot: "ascii_lower CHR ''.'' = CHR ''.''"
  by (simp add: ascii_lower_def)

lemma word_no_dot:
  assumes "map ascii_lower s = w" "CHR ''.'' \<notin> set w"
  shows "count_list s CHR ''.'' = 0"
proof -
  have "CHR ''.'' \<notin> set s"
  proof
    assume "CHR ''.'' \<in> set s"
    then have "ascii_lower CHR ''.'' \<in> set (map ascii_lower s)"
      by (simp add: image_iff) blast
    with assms show False
      by (simp add: ascii_lower_dot)
  qed
  then show ?thesis
    by (simp add: count_list_0_iff)
qed

lemma absfloat_dots: "absfloat s = Some v \<Longrightarrow> count_list s CHR ''.'' \<le> 1"
  using word_no_dot [of s "''inf''"] word_no_dot [of s "''infinity''"]
    word_no_dot [of s "''nan''"] floatnumber_ok_dots [of s]
  by (auto simp: absfloat_def Let_def split: if_splits)

lemma count_list_dropWhile_space:
  "count_list (dropWhile is_space s) CHR ''.'' = count_list s CHR ''.''"
  by (induction s) (auto simp: is_space_def)

lemma count_list_py_strip: "count_list (py_strip s) CHR ''.'' = count_list s CHR ''.''"
  by (simp add: py_strip_def count_list_dropWhile_space)

lemma float_of_str_dots:
  assumes "float_of_str s = Inr v"
  shows "count_list s CHR ''.'' \<le> 1"
proof -
  have "count_list (py_strip s) CHR ''.'' \<le> 1"
  proof (cases "py_strip s")
    case Nil
    then show ?thesis by simp
  next
    case (Cons c u)
    with assms show ?thesis
      using absfloat_dots [of u] absfloat_dots [of "py_strip s"]
      by (auto simp: float_of_str_def Let_def split: if_splits option.splits)
  qed
  then show ?thesis
    by (simp add: count_list_py_strip)
qed

lemma float_of_str_error:
  "float_of_str s = Inl e \<Longrightarrow> e = ValueError ''could not convert string to float''"
  by (auto simp: float_of_str_def Let_def split: option.splits)

lemma count_list_replace_comma:
  "count_list (replace_char CHR '','' CHR ''.'' s) CHR ''.''
     = count_list s CHR ''.'' + count_list s CHR '',''"
  by (induction s) (auto simp: replace_char_def)

text \<open>
  Claim C10. When the string, once \<^verbatim>\<open>R\<close>, \<^verbatim>\<open>$\<close> and white space are removed, holds both a
  point and a comma, \<^verbatim>\<open>extrair_valor_monetario\<close> raises \<^verbatim>\<open>ValueError\<close>: the comma becomes a
  point, the text then holds two points at least, and \<^verbatim>\<open>float\<close> accepts one at most.
\<close>

theorem extrair_valor_monetario_two_separators:
  assumes "CHR ''.'' \<in> set (valor_limpo s)" and "CHR '','' \<in> set (valor_limpo s)"
  shows "extrair_valor_monetario (PStr s)
           = Inl (ValueError ''could not convert string to float'')"
proof -
  let ?t = "replace_char CHR '','' CHR ''.'' (valor_limpo s)"
  have "0 < count_list (valor_limpo s) CHR ''.''" "0 < count_list (valor_limpo s) CHR '',''"
    using assms count_list_0_iff [of "valor_limpo s" "CHR ''.''"]
      count_list_0_iff [of "valor_limpo s" "CHR '',''"]
    by auto
  then have two: "2 \<le> count_list ?t CHR ''.''"
    by (simp add: count_list_replace_comma)
  have "\<exists>e. float_of_str ?t = Inl e"
  proof (cases "float_of_str ?t")
    case (Inl e)
    then show ?thesis by simp
  next
    case (Inr v)
    from float_of_str_dots [OF Inr] two show ?thesis by simp
  qed
  then have "float_of_str ?t = Inl (ValueError ''could not convert string to float'')"
    using float_of_str_error by blast
  then show ?thesis
    using assms(2) by (simp add: Let_def)
qed

theorem extrair_valor_monetario_two_separators_witness:
  "CHR ''.'' \<in> set (valor_limpo ''R$ 1.234,56'') \<and>
   CHR '','' \<in> set (valor_limpo ''R$ 1.234,56'') \<and>
   extrair_valor_monetario (PStr ''R$ 1.234,56'')
     = Inl (ValueError ''could not convert string to float'')"
proof -
  have d: "CHR ''.'' \<in> set (valor_limpo ''R$ 1.234,56'')"
    by code_simp
  have c: "CHR '','' \<in> set (valor_limpo ''R$ 1.234,56'')"
    by code_simp
  show ?thesis
    using d c extrair_valor_monetario_two_separators [OF d c] by simp
qed

section \<open>Properties of the webhook entry point\<close>

lemma globais_all_updated:
  "g'\<lparr> NOME := NOME g, ENDERECO := ENDERECO g, CONSUMO := CONSUMO g,
       TAXA_ILUMINACAO_PUBLICA := TAXA_ILUMINACAO_PUBLICA g,
       CONSUMO_MINIMO := CONSUMO_MINIMO g \<rparr> = (g :: globais)"
  by (cases g, cases g') simp

lemma criar_proposta_pdf_cases:
  "criar_proposta_pdf env w = (None, w) \<or>
   (\<exists>c. criar_proposta_pdf env w = (Some c, w\<lparr>pdfs := c # pdfs w\<rparr>))"
  by (simp add: criar_proposta_pdf_def Let_def split: sum.splits option.splits)

lemma criar_proposta_pdf_error:
  assumes "grafico_erro env \<noteq> None \<or> layout_erro env \<noteq> None \<or> escrita_erro env \<noteq> None"
  shows "criar_proposta_pdf env w = (None, w)"
  using assms
  by (auto simp: criar_proposta_pdf_def gerar_grafico_def Let_def
      split: sum.splits option.splits)

lemma gerar_com_globais_globals:
  "globals (snd (gerar_com_globais env w p)) = globais_de p"
  using criar_proposta_pdf_cases [of env "w\<lparr>globals := globais_de p\<rparr>"]
  by (auto simp: gerar_com_globais_def globais_de_def Let_def
      split: sum.splits option.splits prod.splits)

lemma gerar_com_globais_error:
  assumes "mkdir_erro env \<noteq> None \<or> grafico_erro env \<noteq> None \<or> layout_erro env \<noteq> None
           \<or> escrita_erro env \<noteq> None"
  shows "\<exists>x. fst (gerar_com_globais env w p) = Inl x"
    and "pdfs (snd (gerar_com_globais env w p)) = pdfs w"
proof -
  let ?w1 = "w\<lparr>globals := globais_de p\<rparr>"
  show "\<exists>x. fst (gerar_com_globais env w p) = Inl x"
  proof (cases "mkdir_erro env")
    case (Some x)
    then show ?thesis
      by (simp add: gerar_com_globais_def criar_diretorio_saida_def Let_def)
  next
    case None
    with assms have "criar_proposta_pdf env ?w1 = (None, ?w1)"
      by (intro criar_proposta_pdf_error) simp
    with None show ?thesis
      by (simp add: gerar_com_globais_def criar_diretorio_saida_def globais_de_def Let_def)
  qed
  show "pdfs (snd (gerar_com_globais env w p)) = pdfs w"
  proof (cases "mkdir_erro env")
    case (Some x)
    then show ?thesis
      by (simp add: gerar_com_globais_def criar_diretorio_saida_def Let_def)
  next
    case None
    with assms have "criar_proposta_pdf env ?w1 = (None, ?w1)"
      by (intro criar_proposta_pdf_error) simp
    with None show ?thesis
      by (simp add: gerar_com_globais_def criar_diretorio_saida_def globais_de_def Let_def)
  qed
qed

lemma processar_corpo_cases:
  "(\<exists>x. processar_corpo env w n e v = (Inl x, w)) \<or>
   (\<exists>p. processar_corpo env w n e v =
          (fst (gerar_com_globais env w p),
           (snd (gerar_com_globais env w p))\<lparr>globals := globals w\<rparr>))"
proof (cases "validar_texto n 3 ''Nome completo deve ter pelo menos 3 caracteres''")
  case Inl
  then show ?thesis by (simp add: processar_corpo_def)
next
  case nome: (Inr nome_strip)
  show ?thesis
  proof (cases "validar_texto e 10
                  (''Endere'' @ [CHR 0xE7] @ ''o deve ter pelo menos 10 caracteres'')")
    case Inl
    with nome show ?thesis by (simp add: processar_corpo_def)
  next
    case ender: (Inr endereco_strip)
    show ?thesis
    proof (cases "truthy v")
      case False
      with nome ender show ?thesis by (simp add: processar_corpo_def)
    next
      case True
      show ?thesis
      proof (cases "validar_valor v")
        case Inl
        with nome ender True show ?thesis by (simp add: processar_corpo_def)
      next
        case valor: (Inr valor_float)
        show ?thesis
        proof (cases "calcular_parametros_automaticos (Some nome_strip) (Some endereco_strip) v")
          case Inl
          with nome ender True valor show ?thesis by (simp add: processar_corpo_def)
        next
          case (Inr p)
          have "processar_corpo env w n e v =
                  (fst (gerar_com_globais env w p),
                   (snd (gerar_com_globais env w p))\<lparr>globals := globals w\<rparr>)"
            using nome ender True valor Inr
            by (simp add: processar_corpo_def Let_def globais_all_updated split: prod.splits)
          then show ?thesis by blast
        qed
      qed
    qed
  qed
qed

lemma processar_corpo_generation_error:
  assumes "mkdir_erro env \<noteq> None \<or> grafico_erro env \<noteq> None \<or> layout_erro env \<noteq> None
           \<or> escrita_erro env \<noteq> None"
  shows "\<exists>x. fst (processar_corpo env w n e v) = Inl x"
    and "pdfs (snd (processar_corpo env w n e v)) = pdfs w"
proof -
  from processar_corpo_cases [of env w n e v] consider
    (early) x where "processar_corpo env w n e v = (Inl x, w)"
  | (late) p where "processar_corpo env w n e v =
          (fst (gerar_com_globais env w p),
           (snd (gerar_com_globais env w p))\<lparr>globals := globals w\<rparr>)"
    by blast
  then show "\<exists>x. fst (processar_corpo env w n e v) = Inl x"
  proof cases
    case early
    then show ?thesis by simp
  next
    case late
    with gerar_com_globais_error(1) [OF assms, of w p] show ?thesis by simp
  qed
  from processar_corpo_cases [of env w n e v] consider
    (early) x where "processar_corpo env w n e v = (Inl x, w)"
  | (late) p where "processar_corpo env w n e v =
          (fst (gerar_com_globais env w p),
           (snd (gerar_com_globais env w p))\<lparr>globals := globals w\<rparr>)"
    by blast
  then show "pdfs (snd (processar_corpo env w n e v)) = pdfs w"
  proof cases
    case early
    then show ?thesis by simp
  next
    case late
    with gerar_com_globais_error(2) [OF assms, of w p] show ?thesis by simp
  qed
qed

lemma processar_corpo_globals:
  "globals (snd (processar_corpo env w n e v)) = globals w"
  using processar_corpo_cases [of env w n e v] by auto

lemma processar_result:
  "fst (processar_proposta_webhook env w n e v) =
     (case fst (processar_corpo env w n e v) of
        Inl x \<Rightarrow> Inr (Falha (''Erro ao processar proposta: '' @ str_exn x))
      | Inr r \<Rightarrow> Inr r)"
  by (simp add: processar_proposta_webhook_def split: prod.splits sum.splits)

lemma processar_world:
  "snd (processar_proposta_webhook env w n e v) = snd (processar_corpo env w n e v)"
  by (simp add: processar_proposta_webhook_def split: prod.splits sum.splits)

text \<open>
  Claim C5. \<^verbatim>\<open>processar_proposta_webhook\<close> returns for every input and every outcome of the
  external steps (it never raises). A name shorter than 3 characters, an address shorter than
  10 characters, and an amount that is not a number or not positive each give the failure
  dictionary with the message of that validation. When creating the directory, rendering the
  chart, composing the page or writing the file raises, the result is the failure dictionary
  and no PDF file is added: in particular a failing chart ends the call without a document.
\<close>

theorem processar_proposta_webhook_never_raises:
  "(let r = fst (processar_proposta_webhook env w n e v);
        w' = snd (processar_proposta_webhook env w n e v);
        pre = ''Erro ao processar proposta: ''
    in (\<exists>x. r = Inr x) \<and>
       (\<forall>s. n = PStr s \<and> length (py_strip s) < 3 \<longrightarrow>
          r = Inr (Falha (pre @ ''Nome completo deve ter pelo menos 3 caracteres''))) \<and>
       (\<forall>s a. n = PStr s \<and> 3 \<le> length (py_strip s) \<and> e = PStr a \<and> length (py_strip a) < 10
          \<longrightarrow> r = Inr (Falha (pre @ ''Endere'' @ [CHR 0xE7]
                                @ ''o deve ter pelo menos 10 caracteres''))) \<and>
       (\<forall>s a t. n = PStr s \<and> 3 \<le> length (py_strip s) \<and> e = PStr a
             \<and> 10 \<le> length (py_strip a) \<and> v = PStr t \<and> t \<noteq> []
             \<and> ((\<exists>x. float_of_str t = Inl x) \<or> (\<exists>x. float_of_str t = Inr x \<and> le_zero x))
          \<longrightarrow> r = Inr (Falha (pre @ ''Valor da fatura deve ser um n'' @ [CHR 0xFA]
                                @ ''mero v'' @ [CHR 0xE1] @ ''lido''))) \<and>
       (mkdir_erro env \<noteq> None \<or> grafico_erro env \<noteq> None \<or> layout_erro env \<noteq> None
          \<or> escrita_erro env \<noteq> None
          \<longrightarrow> (\<exists>msg. r = Inr (Falha msg)) \<and> pdfs w' = pdfs w))"
proof -
  let ?r = "fst (processar_proposta_webhook env w n e v)"
  let ?w' = "snd (processar_proposta_webhook env w n e v)"
  let ?pre = "''Erro ao processar proposta: ''"
  have total: "\<exists>x. ?r = Inr x"
    by (simp add: processar_result split: sum.splits)
  have nome: "?r = Inr (Falha (?pre @ ''Nome completo deve ter pelo menos 3 caracteres''))"
    if "n = PStr s" "length (py_strip s) < 3" for s
    using that by (simp add: processar_result processar_corpo_def)
  have ender: "?r = Inr (Falha (?pre @ ''Endere'' @ [CHR 0xE7]
                                @ ''o deve ter pelo menos 10 caracteres''))"
    if "n = PStr s" "3 \<le> length (py_strip s)" "e = PStr a" "length (py_strip a) < 10" for s a
  proof -
    from that(2) have "s \<noteq> []"
      by (auto simp: py_strip_def)
    with that show ?thesis
      by (simp add: processar_result processar_corpo_def)
  qed
  have valor: "?r = Inr (Falha (?pre @ ''Valor da fatura deve ser um n'' @ [CHR 0xFA]
                                @ ''mero v'' @ [CHR 0xE1] @ ''lido''))"
    if "n = PStr s" "3 \<le> length (py_strip s)" "e = PStr a" "10 \<le> length (py_strip a)"
      "v = PStr t" "t \<noteq> []"
      "(\<exists>x. float_of_str t = Inl x) \<or> (\<exists>x. float_of_str t = Inr x \<and> le_zero x)" for s a t
  proof -
    from that(2) have s: "s \<noteq> []"
      by (auto simp: py_strip_def)
    from that(4) have a: "a \<noteq> []"
      by (auto simp: py_strip_def)
    from that(7) have "validar_valor (PStr t)
        = Inl (ValueError (''Valor da fatura deve ser um n'' @ [CHR 0xFA] @ ''mero v''
                           @ [CHR 0xE1] @ ''lido''))"
      using float_of_str_error [of t] by (auto simp: validar_valor_def)
    with that s a show ?thesis
      by (simp add: processar_result processar_corpo_def)
  qed
  have gen: "(\<exists>msg. ?r = Inr (Falha msg)) \<and> pdfs ?w' = pdfs w"
    if "mkdir_erro env \<noteq> None \<or> grafico_erro env \<noteq> None \<or> layout_erro env \<noteq> None
          \<or> escrita_erro env \<noteq> None"
    using processar_corpo_generation_error [OF that, of w n e v]
    by (auto simp: processar_result processar_world)
  show ?thesis
    unfolding Let_def using total nome ender valor gen by blast
qed

theorem processar_proposta_webhook_never_raises_witness:
  "fst (processar_proposta_webhook ambiente_normal mundo_inicial
          (PStr ''Jo'') (PStr ''Rua das Palmeiras, 456'') (PStr ''550.75''))
     = Inr (Falha (''Erro ao processar proposta: ''
                   @ ''Nome completo deve ter pelo menos 3 caracteres'')) \<and>
   (\<exists>msg. fst (processar_proposta_webhook
                  (ambiente_normal\<lparr>grafico_erro := Some (OSError ''No space left on device'')\<rparr>)
                  mundo_inicial
                  (PStr ''Joao da Silva'') (PStr ''Rua das Palmeiras, 456'') (PStr ''550.75''))
            = Inr (Falha msg)) \<and>
   pdfs (snd (processar_proposta_webhook
                  (ambiente_normal\<lparr>grafico_erro := Some (OSError ''No space left on device'')\<rparr>)
                  mundo_inicial
                  (PStr ''Joao da Silva'') (PStr ''Rua das Palmeiras, 456'') (PStr ''550.75'')))
     = []"
proof -
  have short: "PStr ''Jo'' = PStr ''Jo'' \<and> length (py_strip ''Jo'') < 3"
    by code_simp
  have err: "mkdir_erro (ambiente_normal\<lparr>grafico_erro := Some (OSError ''No space left on device'')\<rparr>) \<noteq> None
      \<or> grafico_erro (ambiente_normal\<lparr>grafico_erro := Some (OSError ''No space left on device'')\<rparr>) \<noteq> None
      \<or> layout_erro (ambiente_normal\<lparr>grafico_erro := Some (OSError ''No space left on device'')\<rparr>) \<noteq> None
      \<or> escrita_erro (ambiente_normal\<lparr>grafico_erro := Some (OSError ''No space left on device'')\<rparr>) \<noteq> None"
    by simp
  have p0: "pdfs mundo_inicial = []"
    by (simp add: mundo_inicial_def)
  note a = processar_proposta_webhook_never_raises
      [of ambiente_normal mundo_inicial "PStr ''Jo''" "PStr ''Rua das Palmeiras, 456''"
        "PStr ''550.75''", unfolded Let_def,
        THEN conjunct2, THEN conjunct1, THEN spec, of "''Jo''", THEN mp, OF short]
  note b = processar_proposta_webhook_never_raises
      [of "ambiente_normal\<lparr>grafico_erro := Some (OSError ''No space left on device'')\<rparr>"
        mundo_inicial "PStr ''Joao da Silva''" "PStr ''Rua das Palmeiras, 456''"
        "PStr ''550.75''", unfolded Let_def,
        THEN conjunct2, THEN conjunct2, THEN conjunct2, THEN conjunct2, THEN mp, OF err]
  from a b show ?thesis
    by (simp only: p0 simp_thms)
qed

text \<open>
  Claim C9. Whatever the call returns, the module variables \<^verbatim>\<open>NOME\<close>, \<^verbatim>\<open>ENDERECO\<close>,
  \<^verbatim>\<open>CONSUMO\<close>, \<^verbatim>\<open>TAXA_ILUMINACAO_PUBLICA\<close> and \<^verbatim>\<open>CONSUMO_MINIMO\<close> have at the return their
  values from before the call, although the body of the inner \<^verbatim>\<open>try\<close> leaves them holding the
  parameters derived from the request.
\<close>

theorem processar_proposta_webhook_restores_globals:
  "globals (snd (processar_proposta_webhook env w n e v)) = globals w \<and>
   globals (snd (gerar_com_globais env w p)) = globais_de p"
  by (simp add: processar_world processar_corpo_globals gerar_com_globais_globals)

theorem processar_proposta_webhook_restores_globals_witness:
  "(\<exists>arquivo p m.
      fst (processar_proposta_webhook ambiente_normal mundo_inicial
             (PStr ''Joao da Silva'') (PStr ''Rua das Palmeiras, 456'') (PStr ''550.75''))
        = Inr (Sucesso arquivo p m) \<and> consumo p = 403) \<and>
   globals (snd (processar_proposta_webhook ambiente_normal mundo_inicial
             (PStr ''Joao da Silva'') (PStr ''Rua das Palmeiras, 456'') (PStr ''550.75'')))
     = globals mundo_inicial"
proof -
  have "fst (processar_proposta_webhook ambiente_normal mundo_inicial
             (PStr ''Joao da Silva'') (PStr ''Rua das Palmeiras, 456'') (PStr ''550.75''))
        = Inr (Sucesso ''media/simulacao_Joao_da_Silva.pdf''
                 \<lparr> nome = ''Joao da Silva'', endereco = ''Rua das Palmeiras, 456'',
                   consumo = 403, taxa_iluminacao_publica = 92083207 / 1000000,
                   consumo_minimo = 100, valor_fatura_original = 55075 / 100 \<rparr>
                 ''Proposta gerada com sucesso'')"
    by code_simp
  then have "\<exists>arquivo p m.
      fst (processar_proposta_webhook ambiente_normal mundo_inicial
             (PStr ''Joao da Silva'') (PStr ''Rua das Palmeiras, 456'') (PStr ''550.75''))
        = Inr (Sucesso arquivo p m) \<and> consumo p = 403"
    by simp
  with processar_proposta_webhook_restores_globals
      [of ambiente_normal mundo_inicial "PStr ''Joao da Silva''"
        "PStr ''Rua das Palmeiras, 456''" "PStr ''550.75''", THEN conjunct1]
  show ?thesis
    by (rule conjI [rotated])
qed

end
